theory Spec2Isabelle
  imports Main
begin

section \<open>Data model (src/contexts/JobContext.tsx, lines 6-44)\<close>

text \<open>
  JavaScript strings are modelled as \<open>string\<close>; every character of the source outside
  ASCII lies below U+0100 and is written as the single \<open>char\<close> with that code point.
  JavaScript numbers are modelled as \<open>int\<close>: every number the store computes is a
  clock reading or a counter moved by one, far inside the range where doubles are exact.
\<close>

record ReplyType =
  r_id :: string
  r_content :: string
  r_userId :: string
  r_userName :: string
  r_userPhoto :: string
  r_timestamp :: int

record CommentType =
  c_id :: string
  c_content :: string
  c_userId :: string
  c_userName :: string
  c_userPhoto :: string
  c_timestamp :: int
  c_replies :: "ReplyType list"

datatype JobStatus = StatusOpen | StatusInProgress | StatusCompleted

record JobType =
  j_id :: string
  j_title :: string
  j_description :: string
  j_budget :: int
  j_category :: string
  j_skills :: "string list"
  j_userId :: string
  j_userName :: string
  j_userPhoto :: "string option"
  j_status :: JobStatus
  j_timestamp :: int
  j_comments :: "CommentType list"
  j_likedBy :: "string list"
  j_likesCount :: int
  j_savedBy :: "string list"

text \<open>The argument of \<open>addJob\<close>: a job without the six fields the store fills in.\<close>

record NewJobType =
  n_title :: string
  n_description :: string
  n_budget :: int
  n_category :: string
  n_skills :: "string list"
  n_userId :: string
  n_userName :: string
  n_userPhoto :: "string option"
  n_status :: JobStatus

text \<open>
  \<open>Partial<JobType>\<close>, the argument of \<open>updateJob\<close>: each field is absent
  (\<open>None\<close>) or carries the new value.
\<close>

record JobUpdates =
  u_id :: "string option"
  u_title :: "string option"
  u_description :: "string option"
  u_budget :: "int option"
  u_category :: "string option"
  u_skills :: "string list option"
  u_userId :: "string option"
  u_userName :: "string option"
  u_userPhoto :: "string option option"
  u_status :: "JobStatus option"
  u_timestamp :: "int option"
  u_comments :: "CommentType list option"
  u_likedBy :: "string list option"
  u_likesCount :: "int option"
  u_savedBy :: "string list option"

text \<open>The acting user supplied by the authentication context.\<close>

record UserType =
  usr_id :: string
  usr_name :: string
  usr_photoURL :: "string option"

text \<open>A job record as the remote API sends it, before \<open>fetchJobs\<close> normalises it.\<close>

record ApiUser =
  au_id :: string

record ApiJob =
  a_id :: string
  a_title :: string
  a_description :: string
  a_budget :: int
  a_category :: string
  a_skills :: "string list"
  a_userId :: string
  a_userName :: string
  a_userPhoto :: "string option"
  a_status :: JobStatus
  a_timestamp :: int
  a_comments :: "CommentType list option"
  a_likedBy :: "ApiUser list option"
  a_savedBy :: "ApiUser list option"

datatype ToastVariant = VariantDefault | VariantDestructive

record ToastType =
  t_variant :: ToastVariant
  t_title :: string
  t_description :: string

text \<open>
  The slot \<open>wfc_jobs\<close> of the browser's local storage: nothing stored, a snapshot
  written by \<open>JSON.stringify\<close> of a job list (read back by \<open>JSON.parse\<close> as the
  same list), or text that \<open>JSON.parse\<close> rejects.
\<close>

datatype CacheSlot = NoSnapshot | Snapshot "JobType list" | Corrupt

text \<open>
  What the request to the remote API comes to: \<open>fetch\<close> or \<open>response.json()\<close>
  rejects, the response is not \<open>ok\<close>, or the response is \<open>ok\<close> with a body whose
  \<open>jobs\<close> field is missing (\<open>None\<close>) or a list of records.
\<close>

datatype RemoteResponse = FetchRejected | ResponseNotOk | ResponseOk "ApiJob list option"

text \<open>A promise returned by an operation either resolves or rejects.\<close>

datatype Outcome = Resolved | Rejected

text \<open>The state of the provider: its four state cells and its three collaborators.\<close>

record store =
  jobs :: "JobType list"
  savedJobs :: "JobType list"
  isLoading :: bool
  error :: "string option"
  currentUser :: "UserType option"
  wfc_jobs :: CacheSlot
  toasts :: "ToastType list"

section \<open>Clock readings and \<open>Number.prototype.toString\<close>\<close>

text \<open>
  \<open>Date.now()\<close> is read several times inside one call; an operation takes the readings
  as a function \<open>now\<close>, where \<open>now k\<close> is the value of the \<open>k\<close>-th reading of that call
  (counted from 0, in evaluation order).
\<close>

definition digit_char :: "nat \<Rightarrow> char" where
  "digit_char d = char_of (48 + d)"

function natToString :: "nat \<Rightarrow> string" where
  "natToString n =
     (if n < 10 then [digit_char n] else natToString (n div 10) @ [digit_char (n mod 10)])"
  by pat_completeness auto
termination
  by (relation "measure id") auto

definition toString :: "int \<Rightarrow> string" where
  "toString n = (if n < 0 then ''-'' @ natToString (nat (- n)) else natToString (nat n))"

section \<open>The seed dataset (\<open>getMockJobs\<close>, lines 446-553)\<close>

text \<open>
  The five elements of the array literal that \<open>getMockJobs\<close> returns, named
  \<open>mockJob1\<close> to \<open>mockJob5\<close>. Building the array reads the clock seven times: for the
  timestamp of job 1, of its comment, of the comment's reply, and of jobs 2 to 5.
\<close>

definition mockJob1 :: "(nat \<Rightarrow> int) \<Rightarrow> JobType" where
  "mockJob1 now =
    \<lparr>j_id = ''1'',
     j_title = ''Desarrollo de aplicaci'' @ [CHR 0xF3] @ ''n web con React'',
     j_description =
       ''Necesito un desarrollador para crear una aplicaci'' @ [CHR 0xF3] @ ''n web completa utilizando React, Node.js y MongoDB. La aplicaci'' @ [CHR 0xF3] @ ''n debe tener funcionalidades de autenticaci''
       @ [CHR 0xF3] @ ''n, gesti'' @ [CHR 0xF3] @ ''n de usuarios y un panel de administraci'' @ [CHR 0xF3] @ ''n.'',
     j_budget = 2500,
     j_category = ''Desarrollo Web'',
     j_skills = [''React'', ''Node.js'', ''MongoDB'', ''Express''],
     j_userId = ''user1'',
     j_userName = ''Carlos Mart'' @ [CHR 0xED] @ ''nez'',
     j_userPhoto = Some ''https://randomuser.me/api/portraits/men/1.jpg'',
     j_status = StatusOpen,
     j_timestamp = now 0 - 86400000 * 2,
     j_comments = [\<lparr>c_id = ''c1'',
         c_content = ''Me interesa este proyecto. Tengo experiencia en proyectos similares.'',
         c_userId = ''user2'',
         c_userName = ''Laura G'' @ [CHR 0xF3] @ ''mez'',
         c_userPhoto = ''https://randomuser.me/api/portraits/women/2.jpg'',
         c_timestamp = now 1 - 43200000,
         c_replies =
           [\<lparr>r_id = ''r1'',
             r_content = ''Gracias por tu inter'' @ [CHR 0xE9] @ ''s, por favor env'' @ [CHR 0xED] @ ''ame un mensaje para discutir los detalles.'',
             r_userId = ''user1'',
             r_userName = ''Carlos Mart'' @ [CHR 0xED] @ ''nez'',
             r_userPhoto = ''https://randomuser.me/api/portraits/men/1.jpg'',
             r_timestamp = now 2 - 36000000\<rparr>]\<rparr>],
     j_likedBy = [],
     j_likesCount = 0,
     j_savedBy = []\<rparr>"

definition mockJob2 :: "(nat \<Rightarrow> int) \<Rightarrow> JobType" where
  "mockJob2 now =
    \<lparr>j_id = ''2'',
     j_title = ''Dise'' @ [CHR 0xF1] @ ''o de logotipo para startup de tecnolog'' @ [CHR 0xED] @ ''a'',
     j_description =
       ''Somos una startup en el sector de la tecnolog'' @ [CHR 0xED]
       @ ''a y necesitamos un logotipo moderno y profesional que refleje nuestra identidad de marca. Queremos algo minimalista pero impactante.'',
     j_budget = 500,
     j_category = ''Dise'' @ [CHR 0xF1] @ ''o Gr'' @ [CHR 0xE1] @ ''fico'',
     j_skills = [''Illustrator'', ''Photoshop'', ''Dise'' @ [CHR 0xF1] @ ''o de Logos'', ''Branding''],
     j_userId = ''user3'',
     j_userName = ''Ana Rodr'' @ [CHR 0xED] @ ''guez'',
     j_userPhoto = Some ''https://randomuser.me/api/portraits/women/3.jpg'',
     j_status = StatusOpen,
     j_timestamp = now 3 - 86400000,
     j_comments = [],
     j_likedBy = [],
     j_likesCount = 0,
     j_savedBy = []\<rparr>"

definition mockJob3 :: "(nat \<Rightarrow> int) \<Rightarrow> JobType" where
  "mockJob3 now =
    \<lparr>j_id = ''3'',
     j_title = ''Traducci'' @ [CHR 0xF3] @ ''n de documentos t'' @ [CHR 0xE9] @ ''cnicos ingl'' @ [CHR 0xE9] @ ''s-espa'' @ [CHR 0xF1] @ ''ol'',
     j_description =
       ''Necesito traducir manuales t'' @ [CHR 0xE9] @ ''cnicos de ingenier'' @ [CHR 0xED] @ ''a del ingl'' @ [CHR 0xE9] @ ''s al espa'' @ [CHR 0xF1] @ ''ol. Son aproximadamente 200 p'' @ [CHR 0xE1]
       @ ''ginas con terminolog'' @ [CHR 0xED] @ ''a especializada.'',
     j_budget = 800,
     j_category = ''Traducci'' @ [CHR 0xF3] @ ''n'',
     j_skills = [''Ingl'' @ [CHR 0xE9] @ ''s'', ''Espa'' @ [CHR 0xF1] @ ''ol'', ''Traducci'' @ [CHR 0xF3] @ ''n T'' @ [CHR 0xE9] @ ''cnica''],
     j_userId = ''user4'',
     j_userName = ''Roberto S'' @ [CHR 0xE1] @ ''nchez'',
     j_userPhoto = Some ''https://randomuser.me/api/portraits/men/4.jpg'',
     j_status = StatusInProgress,
     j_timestamp = now 4 - 86400000 * 5,
     j_comments = [],
     j_likedBy = [],
     j_likesCount = 0,
     j_savedBy = []\<rparr>"

definition mockJob4 :: "(nat \<Rightarrow> int) \<Rightarrow> JobType" where
  "mockJob4 now =
    \<lparr>j_id = ''4'',
     j_title = ''Desarrollo de aplicaci'' @ [CHR 0xF3] @ ''n m'' @ [CHR 0xF3] @ ''vil para Android e iOS'',
     j_description =
       ''Buscamos un desarrollador con experiencia en React Native para crear una aplicaci'' @ [CHR 0xF3] @ ''n m'' @ [CHR 0xF3] @ ''vil que funcione tanto en Android como en iOS. La aplicaci'' @ [CHR 0xF3]
       @ ''n debe tener funcionalidades de geolocalizaci'' @ [CHR 0xF3] @ ''n y notificaciones push.'',
     j_budget = 3000,
     j_category = ''Desarrollo M'' @ [CHR 0xF3] @ ''vil'',
     j_skills = [''React Native'', ''Android'', ''iOS'', ''Firebase''],
     j_userId = ''user5'',
     j_userName = ''Elena Torres'',
     j_userPhoto = Some ''https://randomuser.me/api/portraits/women/5.jpg'',
     j_status = StatusOpen,
     j_timestamp = now 5 - 86400000 * 3,
     j_comments = [],
     j_likedBy = [],
     j_likesCount = 0,
     j_savedBy = []\<rparr>"

definition mockJob5 :: "(nat \<Rightarrow> int) \<Rightarrow> JobType" where
  "mockJob5 now =
    \<lparr>j_id = ''5'',
     j_title = ''Edici'' @ [CHR 0xF3] @ ''n y postproducci'' @ [CHR 0xF3] @ ''n de video corporativo'',
     j_description =
       ''Tenemos material grabado para un video corporativo de 5 minutos y necesitamos un profesional para la edici'' @ [CHR 0xF3] @ ''n y postproducci'' @ [CHR 0xF3]
       @ ''n. Se requiere experiencia en After Effects para animaciones y efectos.'',
     j_budget = 1200,
     j_category = ''Video y Animaci'' @ [CHR 0xF3] @ ''n'',
     j_skills = [''Premiere Pro'', ''After Effects'', ''Edici'' @ [CHR 0xF3] @ ''n de Video'', ''Postproducci'' @ [CHR 0xF3] @ ''n''],
     j_userId = ''user1'',
     j_userName = ''Carlos Mart'' @ [CHR 0xED] @ ''nez'',
     j_userPhoto = Some ''https://randomuser.me/api/portraits/men/1.jpg'',
     j_status = StatusCompleted,
     j_timestamp = now 6 - 86400000 * 10,
     j_comments = [],
     j_likedBy = [],
     j_likesCount = 0,
     j_savedBy = []\<rparr>"

definition getMockJobs :: "(nat \<Rightarrow> int) \<Rightarrow> JobType list" where
  "getMockJobs now = [mockJob1 now, mockJob2 now, mockJob3 now, mockJob4 now, mockJob5 now]"

section \<open>Effects of the provider (lines 141-167)\<close>

text \<open>\<open>updateSavedJobs\<close> recomputes the saved view from the job list and the acting user.\<close>

definition updateSavedJobs :: "store \<Rightarrow> store" where
  "updateSavedJobs st =
     (case currentUser st of
        Some user \<Rightarrow>
          st\<lparr>savedJobs := filter (\<lambda>job. usr_id user \<in> set (j_savedBy job)) (jobs st)\<rparr>
      | None \<Rightarrow> st\<lparr>savedJobs := []\<rparr>)"

text \<open>The effect on \<open>[jobs]\<close> that mirrors a non-empty job list into local storage.\<close>

definition persistJobs :: "store \<Rightarrow> store" where
  "persistJobs st = (if length (jobs st) > 0 then st\<lparr>wfc_jobs := Snapshot (jobs st)\<rparr> else st)"

text \<open>
  After a render in which \<open>jobs\<close> is a new array, both effects that depend on it run, in
  the order of their declaration. Every \<open>setJobs\<close> of the provider stores a fresh array
  (\<open>map\<close>, \<open>filter\<close>, a spread, \<open>JSON.parse\<close>, \<open>getMockJobs\<close>), so an operation that calls
  \<open>setJobs\<close> ends with \<open>afterJobsChange\<close>, and one that does not leaves the effects alone.
\<close>

definition afterJobsChange :: "store \<Rightarrow> store" where
  "afterJobsChange st = persistJobs (updateSavedJobs st)"

text \<open>
  A change of the acting user (made by the authentication context) re-runs only the
  effect that depends on \<open>currentUser\<close>.
\<close>

definition setCurrentUser :: "UserType option \<Rightarrow> store \<Rightarrow> store" where
  "setCurrentUser user st = updateSavedJobs (st\<lparr>currentUser := user\<rparr>)"

definition toast :: "ToastVariant \<Rightarrow> string \<Rightarrow> string \<Rightarrow> store \<Rightarrow> store" where
  "toast v title description st =
     st\<lparr>toasts := toasts st @ [\<lparr>t_variant = v, t_title = title, t_description = description\<rparr>]\<rparr>"

section \<open>Loading (\<open>fetchJobs\<close>, lines 89-138)\<close>

definition formatJob :: "ApiJob \<Rightarrow> JobType" where
  "formatJob job =
    \<lparr>j_id = a_id job,
     j_title = a_title job,
     j_description = a_description job,
     j_budget = a_budget job,
     j_category = a_category job,
     j_skills = a_skills job,
     j_userId = a_userId job,
     j_userName = a_userName job,
     j_userPhoto = a_userPhoto job,
     j_status = a_status job,
     j_timestamp = a_timestamp job,
     j_comments = (case a_comments job of Some cs \<Rightarrow> cs | None \<Rightarrow> []),
     j_likedBy = (case a_likedBy job of Some us \<Rightarrow> map au_id us | None \<Rightarrow> []),
     j_likesCount = (case a_likedBy job of Some us \<Rightarrow> int (length us) | None \<Rightarrow> 0),
     j_savedBy = (case a_savedBy job of Some us \<Rightarrow> map au_id us | None \<Rightarrow> [])\<rparr>"

text \<open>
  The \<open>catch\<close> block of \<open>fetchJobs\<close>: the state it leaves, and whether it called
  \<open>setJobs\<close>.
\<close>

definition loadFallback :: "(nat \<Rightarrow> int) \<Rightarrow> store \<Rightarrow> bool \<times> store" where
  "loadFallback now st =
     (case wfc_jobs st of
        Snapshot storedJobs \<Rightarrow> (True, st\<lparr>jobs := storedJobs\<rparr>)
      | NoSnapshot \<Rightarrow>
          (let mockJobs = getMockJobs now
           in (True, st\<lparr>jobs := mockJobs, wfc_jobs := Snapshot mockJobs\<rparr>))
      | Corrupt \<Rightarrow>
          (False, st\<lparr>error := Some ''No se pudieron cargar los trabajos''\<rparr>))"

definition fetchJobs :: "(nat \<Rightarrow> int) \<Rightarrow> RemoteResponse \<Rightarrow> store \<Rightarrow> store" where
  "fetchJobs now response st =
     (let st1 = st\<lparr>isLoading := True\<rparr>;
          (changed, st2) =
            (case response of
               ResponseOk (Some data) \<Rightarrow> (True, st1\<lparr>jobs := map formatJob data\<rparr>)
             | ResponseOk None \<Rightarrow> (False, st1)
             | ResponseNotOk \<Rightarrow> loadFallback now st1
             | FetchRejected \<Rightarrow> loadFallback now st1);
          st3 = st2\<lparr>isLoading := False\<rparr>
      in if changed then afterJobsChange st3 else st3)"

definition refreshJobs :: "(nat \<Rightarrow> int) \<Rightarrow> RemoteResponse \<Rightarrow> store \<Rightarrow> store" where
  "refreshJobs now response st = fetchJobs now response st"

text \<open>
  The provider as mounted, before the first \<open>fetchJobs\<close> is answered: empty lists,
  loading, no error; the effects of the first render have run (the saved view is
  computed, nothing is persisted since the list is empty).
\<close>

definition initialStore :: "UserType option \<Rightarrow> CacheSlot \<Rightarrow> store" where
  "initialStore user cache =
     afterJobsChange
       \<lparr>jobs = [], savedJobs = [], isLoading = True, error = None,
        currentUser = user, wfc_jobs = cache, toasts = []\<rparr>"

section \<open>Queries (lines 175-177, 423-443)\<close>

definition getJob :: "store \<Rightarrow> string \<Rightarrow> JobType option" where
  "getJob st jobId = find (\<lambda>job. j_id job = jobId) (jobs st)"

definition isJobSavedByCurrentUser :: "store \<Rightarrow> string \<Rightarrow> bool" where
  "isJobSavedByCurrentUser st jobId =
     (case currentUser st of
        None \<Rightarrow> False
      | Some user \<Rightarrow>
          (case find (\<lambda>job. j_id job = jobId) (jobs st) of
             Some job \<Rightarrow> usr_id user \<in> set (j_savedBy job)
           | None \<Rightarrow> False))"

definition isJobLikedByCurrentUser :: "store \<Rightarrow> string \<Rightarrow> bool" where
  "isJobLikedByCurrentUser st jobId =
     (case currentUser st of
        None \<Rightarrow> False
      | Some user \<Rightarrow>
          (case find (\<lambda>job. j_id job = jobId) (jobs st) of
             Some job \<Rightarrow> usr_id user \<in> set (j_likedBy job)
           | None \<Rightarrow> False))"

definition getLikesCount :: "store \<Rightarrow> string \<Rightarrow> int" where
  "getLikesCount st jobId =
     (case find (\<lambda>job. j_id job = jobId) (jobs st) of
        Some job \<Rightarrow> j_likesCount job
      | None \<Rightarrow> 0)"

section \<open>Mutations (lines 179-421)\<close>

text \<open>
  Each operation is the body of the source function on the store. The function the
  source passes to \<open>setJobs\<close> is a definition of its own, named after the operation.
  The \<open>catch\<close> blocks of \<open>addJob\<close>, \<open>updateJob\<close>, \<open>deleteJob\<close> and of the two toggles
  guard calls that cannot throw (\<open>setJobs\<close>, \<open>toast\<close>), so these operations always
  resolve; \<open>addCommentToJob\<close> and \<open>addReplyToComment\<close> read \<open>user.id\<close> of a parameter
  typed \<open>any\<close>, which throws when the caller passes no user (\<open>None\<close>).
\<close>

definition addJob :: "(nat \<Rightarrow> int) \<Rightarrow> NewJobType \<Rightarrow> store \<Rightarrow> string \<times> store" where
  "addJob now newJob st =
     (let jobId = toString (now 0);
          job = \<lparr>j_id = jobId,
                 j_title = n_title newJob,
                 j_description = n_description newJob,
                 j_budget = n_budget newJob,
                 j_category = n_category newJob,
                 j_skills = n_skills newJob,
                 j_userId = n_userId newJob,
                 j_userName = n_userName newJob,
                 j_userPhoto = n_userPhoto newJob,
                 j_status = n_status newJob,
                 j_timestamp = now 1,
                 j_comments = [],
                 j_likedBy = [],
                 j_likesCount = 0,
                 j_savedBy = []\<rparr>
      in (jobId,
          afterJobsChange
            (toast VariantDefault ''Trabajo creado'' ''El trabajo se ha creado correctamente''
               (st\<lparr>jobs := job # jobs st\<rparr>))))"

definition applyUpdates :: "JobType \<Rightarrow> JobUpdates \<Rightarrow> JobType" where
  "applyUpdates job updates =
    \<lparr>j_id = (case u_id updates of Some v \<Rightarrow> v | None \<Rightarrow> j_id job),
     j_title = (case u_title updates of Some v \<Rightarrow> v | None \<Rightarrow> j_title job),
     j_description = (case u_description updates of Some v \<Rightarrow> v | None \<Rightarrow> j_description job),
     j_budget = (case u_budget updates of Some v \<Rightarrow> v | None \<Rightarrow> j_budget job),
     j_category = (case u_category updates of Some v \<Rightarrow> v | None \<Rightarrow> j_category job),
     j_skills = (case u_skills updates of Some v \<Rightarrow> v | None \<Rightarrow> j_skills job),
     j_userId = (case u_userId updates of Some v \<Rightarrow> v | None \<Rightarrow> j_userId job),
     j_userName = (case u_userName updates of Some v \<Rightarrow> v | None \<Rightarrow> j_userName job),
     j_userPhoto = (case u_userPhoto updates of Some v \<Rightarrow> v | None \<Rightarrow> j_userPhoto job),
     j_status = (case u_status updates of Some v \<Rightarrow> v | None \<Rightarrow> j_status job),
     j_timestamp = (case u_timestamp updates of Some v \<Rightarrow> v | None \<Rightarrow> j_timestamp job),
     j_comments = (case u_comments updates of Some v \<Rightarrow> v | None \<Rightarrow> j_comments job),
     j_likedBy = (case u_likedBy updates of Some v \<Rightarrow> v | None \<Rightarrow> j_likedBy job),
     j_likesCount = (case u_likesCount updates of Some v \<Rightarrow> v | None \<Rightarrow> j_likesCount job),
     j_savedBy = (case u_savedBy updates of Some v \<Rightarrow> v | None \<Rightarrow> j_savedBy job)\<rparr>"

text \<open>The object literal \<open>{}\<close> as a \<open>Partial<JobType>\<close>.\<close>

definition noUpdates :: JobUpdates where
  "noUpdates =
    \<lparr>u_id = None, u_title = None, u_description = None, u_budget = None, u_category = None,
     u_skills = None, u_userId = None, u_userName = None, u_userPhoto = None,
     u_status = None, u_timestamp = None, u_comments = None, u_likedBy = None,
     u_likesCount = None, u_savedBy = None\<rparr>"

definition updateJob_update :: "string \<Rightarrow> JobUpdates \<Rightarrow> JobType list \<Rightarrow> JobType list" where
  "updateJob_update jobId updates prevJobs =
     map (\<lambda>job. if j_id job = jobId then applyUpdates job updates else job) prevJobs"

definition updateJob :: "string \<Rightarrow> JobUpdates \<Rightarrow> store \<Rightarrow> Outcome \<times> store" where
  "updateJob jobId updates st =
     (Resolved,
      afterJobsChange
        (toast VariantDefault ''Trabajo actualizado'' ''El trabajo se ha actualizado correctamente''
           (st\<lparr>jobs := updateJob_update jobId updates (jobs st)\<rparr>)))"

definition deleteJob_update :: "string \<Rightarrow> JobType list \<Rightarrow> JobType list" where
  "deleteJob_update jobId prevJobs = filter (\<lambda>job. j_id job \<noteq> jobId) prevJobs"

definition deleteJob :: "string \<Rightarrow> store \<Rightarrow> Outcome \<times> store" where
  "deleteJob jobId st =
     (Resolved,
      afterJobsChange
        (toast VariantDefault ''Trabajo eliminado'' ''El trabajo se ha eliminado correctamente''
           (st\<lparr>jobs := deleteJob_update jobId (jobs st)\<rparr>)))"

text \<open>\<open>user.photoURL || ''\<close>: a missing or empty photo becomes the empty string.\<close>

definition photoOrEmpty :: "UserType \<Rightarrow> string" where
  "photoOrEmpty user = (case usr_photoURL user of Some p \<Rightarrow> p | None \<Rightarrow> '''')"

definition newComment :: "(nat \<Rightarrow> int) \<Rightarrow> string \<Rightarrow> UserType \<Rightarrow> CommentType" where
  "newComment now content user =
    \<lparr>c_id = toString (now 0),
     c_content = content,
     c_userId = usr_id user,
     c_userName = usr_name user,
     c_userPhoto = photoOrEmpty user,
     c_timestamp = now 1,
     c_replies = []\<rparr>"

definition addCommentToJob_update :: "string \<Rightarrow> CommentType \<Rightarrow> JobType list \<Rightarrow> JobType list" where
  "addCommentToJob_update jobId comment prevJobs =
     map (\<lambda>job. if j_id job = jobId then job\<lparr>j_comments := comment # j_comments job\<rparr> else job)
       prevJobs"

definition addCommentToJob ::
  "(nat \<Rightarrow> int) \<Rightarrow> string \<Rightarrow> string \<Rightarrow> UserType option \<Rightarrow> store \<Rightarrow> Outcome \<times> store" where
  "addCommentToJob now jobId content user st =
     (case user of
        None \<Rightarrow> (Rejected, st\<lparr>error := Some (''No se pudo a'' @ [CHR 0xF1] @ ''adir el comentario'')\<rparr>)
      | Some u \<Rightarrow>
          (Resolved,
           afterJobsChange
             (toast VariantDefault (''Comentario a'' @ [CHR 0xF1] @ ''adido'')
                ''Tu comentario ha sido publicado''
                (st\<lparr>jobs := addCommentToJob_update jobId (newComment now content u) (jobs st)\<rparr>))))"

definition newReply :: "(nat \<Rightarrow> int) \<Rightarrow> string \<Rightarrow> UserType \<Rightarrow> ReplyType" where
  "newReply now content user =
    \<lparr>r_id = toString (now 0),
     r_content = content,
     r_userId = usr_id user,
     r_userName = usr_name user,
     r_userPhoto = photoOrEmpty user,
     r_timestamp = now 1\<rparr>"

definition addReplyToComment_update ::
  "string \<Rightarrow> string \<Rightarrow> ReplyType \<Rightarrow> JobType list \<Rightarrow> JobType list" where
  "addReplyToComment_update jobId commentId reply prevJobs =
     map (\<lambda>job.
            if j_id job = jobId
            then job\<lparr>j_comments :=
                   map (\<lambda>comment.
                          if c_id comment = commentId
                          then comment\<lparr>c_replies := c_replies comment @ [reply]\<rparr>
                          else comment)
                     (j_comments job)\<rparr>
            else job)
       prevJobs"

definition addReplyToComment ::
  "(nat \<Rightarrow> int) \<Rightarrow> string \<Rightarrow> string \<Rightarrow> string \<Rightarrow> UserType option \<Rightarrow> store \<Rightarrow> Outcome \<times> store" where
  "addReplyToComment now jobId commentId content user st =
     (case user of
        None \<Rightarrow> (Rejected, st\<lparr>error := Some (''No se pudo a'' @ [CHR 0xF1] @ ''adir la respuesta'')\<rparr>)
      | Some u \<Rightarrow>
          (Resolved,
           afterJobsChange
             (toast VariantDefault (''Respuesta a'' @ [CHR 0xF1] @ ''adida'')
                ''Tu respuesta ha sido publicada''
                (st\<lparr>jobs :=
                      addReplyToComment_update jobId commentId (newReply now content u) (jobs st)\<rparr>))))"

definition toggleJobLike_update :: "string \<Rightarrow> string \<Rightarrow> JobType list \<Rightarrow> JobType list" where
  "toggleJobLike_update userId jobId prevJobs =
     map (\<lambda>job.
            if j_id job = jobId
            then (let userLiked = userId \<in> set (j_likedBy job)
                  in if userLiked
                     then job\<lparr>j_likedBy := filter (\<lambda>i. i \<noteq> userId) (j_likedBy job),
                              j_likesCount := max 0 (j_likesCount job - 1)\<rparr>
                     else job\<lparr>j_likedBy := j_likedBy job @ [userId],
                              j_likesCount := j_likesCount job + 1\<rparr>)
            else job)
       prevJobs"

definition toggleJobLike :: "string \<Rightarrow> store \<Rightarrow> Outcome \<times> store" where
  "toggleJobLike jobId st =
     (case currentUser st of
        None \<Rightarrow>
          (Resolved,
           toast VariantDestructive ''Error''
             (''Debes iniciar sesi'' @ [CHR 0xF3] @ ''n para dar like'') st)
      | Some user \<Rightarrow>
          (Resolved,
           afterJobsChange
             ((if isJobLikedByCurrentUser st jobId
               then toast VariantDefault ''Like eliminado'' ''Has quitado tu like de esta propuesta''
               else toast VariantDefault (''Like a'' @ [CHR 0xF1] @ ''adido'')
                      ''Has dado like a esta propuesta'')
                (st\<lparr>jobs := toggleJobLike_update (usr_id user) jobId (jobs st)\<rparr>))))"

definition toggleSaveJob_update :: "string \<Rightarrow> string \<Rightarrow> JobType list \<Rightarrow> JobType list" where
  "toggleSaveJob_update userId jobId prevJobs =
     map (\<lambda>job.
            if j_id job = jobId
            then (let isSaved = userId \<in> set (j_savedBy job)
                  in if isSaved
                     then job\<lparr>j_savedBy := filter (\<lambda>i. i \<noteq> userId) (j_savedBy job)\<rparr>
                     else job\<lparr>j_savedBy := j_savedBy job @ [userId]\<rparr>)
            else job)
       prevJobs"

text \<open>
  \<open>toggleSaveJob\<close> calls \<open>updateSavedJobs()\<close> itself, right after queueing the new job
  list: that call still sees the job list of the render the handler belongs to, so it
  stores the saved view of the old list; the effect that follows the new list then
  recomputes it.
\<close>

definition toggleSaveJob :: "string \<Rightarrow> store \<Rightarrow> Outcome \<times> store" where
  "toggleSaveJob jobId st =
     (case currentUser st of
        None \<Rightarrow>
          (Resolved,
           toast VariantDestructive ''Error''
             (''Debes iniciar sesi'' @ [CHR 0xF3] @ ''n para guardar propuestas'') st)
      | Some user \<Rightarrow>
          (Resolved,
           afterJobsChange
             ((if isJobSavedByCurrentUser st jobId
               then toast VariantDefault ''Propuesta eliminada''
                      ''Has eliminado esta propuesta de tus guardados''
               else toast VariantDefault ''Propuesta guardada'' ''Has guardado esta propuesta'')
                (st\<lparr>jobs := toggleSaveJob_update (usr_id user) jobId (jobs st),
                    savedJobs := savedJobs (updateSavedJobs st)\<rparr>))))"

section \<open>Sequences of operations\<close>

text \<open>
  Operations run to completion one after the other (the source has no suspension point
  between reading and writing the state, except inside \<open>fetchJobs\<close>, whose completion
  is taken as one step); a query reads the state the preceding operations left.
\<close>

datatype Action =
    FetchJobs "nat \<Rightarrow> int" RemoteResponse
  | AddJob "nat \<Rightarrow> int" NewJobType
  | UpdateJob string JobUpdates
  | DeleteJob string
  | AddCommentToJob "nat \<Rightarrow> int" string string "UserType option"
  | AddReplyToComment "nat \<Rightarrow> int" string string string "UserType option"
  | ToggleJobLike string
  | ToggleSaveJob string
  | SetCurrentUser "UserType option"

fun dispatch :: "Action \<Rightarrow> store \<Rightarrow> store" where
  "dispatch (FetchJobs now response) st = fetchJobs now response st"
| "dispatch (AddJob now newJob) st = snd (addJob now newJob st)"
| "dispatch (UpdateJob jobId updates) st = snd (updateJob jobId updates st)"
| "dispatch (DeleteJob jobId) st = snd (deleteJob jobId st)"
| "dispatch (AddCommentToJob now jobId content user) st =
     snd (addCommentToJob now jobId content user st)"
| "dispatch (AddReplyToComment now jobId commentId content user) st =
     snd (addReplyToComment now jobId commentId content user st)"
| "dispatch (ToggleJobLike jobId) st = snd (toggleJobLike jobId st)"
| "dispatch (ToggleSaveJob jobId) st = snd (toggleSaveJob jobId st)"
| "dispatch (SetCurrentUser user) st = setCurrentUser user st"

fun run :: "Action list \<Rightarrow> store \<Rightarrow> store" where
  "run [] st = st"
| "run (a # as) st = run as (dispatch a st)"

text \<open>A sequence of \<open>toggleJobLike\<close> calls, each by an authenticated user on a job id.\<close>

fun likeCalls :: "(UserType \<times> string) list \<Rightarrow> store \<Rightarrow> store" where
  "likeCalls [] st = st"
| "likeCalls ((user, jobId) # calls) st =
     likeCalls calls (snd (toggleJobLike jobId (setCurrentUser (Some user) st)))"

section \<open>Properties the data model asks of a job\<close>

text \<open>
  The invariant of the data model: the counter equals the number of likers, and no user
  id occurs twice among the likers or among the savers.
\<close>

definition job_inv :: "JobType \<Rightarrow> bool" where
  "job_inv job \<longleftrightarrow>
     j_likesCount job = int (length (j_likedBy job)) \<and>
     distinct (j_likedBy job) \<and> distinct (j_savedBy job)"

text \<open>
  The Saved Jobs view as the specification words it: the jobs whose \<open>savedBy\<close> holds the
  acting user's id, in the order of the job list; empty without an acting user.
\<close>

definition savedJobs_spec :: "store \<Rightarrow> JobType list" where
  "savedJobs_spec st =
     (case currentUser st of
        None \<Rightarrow> []
      | Some user \<Rightarrow> filter (\<lambda>job. usr_id user \<in> set (j_savedBy job)) (jobs st))"

section \<open>Concrete inputs\<close>

definition fixedClock :: "nat \<Rightarrow> int" where
  "fixedClock k = 1700000000000 + int k"

definition userU :: UserType where
  "userU = \<lparr>usr_id = ''U'', usr_name = ''Uma'', usr_photoURL = None\<rparr>"

definition userV :: UserType where
  "userV = \<lparr>usr_id = ''V'', usr_name = ''Vic'', usr_photoURL = Some ''v.png''\<rparr>"

text \<open>The store after mounting with an empty cache and a remote API that cannot be reached.\<close>

definition seedStore :: store where
  "seedStore = fetchJobs fixedClock FetchRejected (initialStore (Some userU) NoSnapshot)"

text \<open>
  The seed store after \<open>U\<close> and then \<open>V\<close> liked job \<open>2\<close>, with \<open>U\<close> acting again.
\<close>

definition likedStore :: store where
  "likedStore = setCurrentUser (Some userU) (likeCalls [(userU, ''2''), (userV, ''2'')] seedStore)"

text \<open>
  A record of the remote API whose liker list names \<open>U\<close> twice, and the store after
  mounting with the API answering with that record alone.
\<close>

definition dupApiJob :: ApiJob where
  "dupApiJob =
    \<lparr>a_id = ''7'', a_title = ''Logo'', a_description = ''Un logo nuevo'', a_budget = 100,
     a_category = ''Branding'', a_skills = [''Illustrator''], a_userId = ''user3'',
     a_userName = ''Ana'', a_userPhoto = None, a_status = StatusOpen,
     a_timestamp = 1700000000000, a_comments = None,
     a_likedBy = Some [\<lparr>au_id = ''U''\<rparr>, \<lparr>au_id = ''U''\<rparr>, \<lparr>au_id = ''V''\<rparr>],
     a_savedBy = Some [\<lparr>au_id = ''V''\<rparr>, \<lparr>au_id = ''V''\<rparr>]\<rparr>"

definition dupStore :: store where
  "dupStore =
     fetchJobs fixedClock (ResponseOk (Some [dupApiJob])) (initialStore (Some userU) NoSnapshot)"


section \<open>What the effects and notifications leave alone\<close>

lemma jobs_toast [simp]: "jobs (toast v t d st) = jobs st"
  and currentUser_toast [simp]: "currentUser (toast v t d st) = currentUser st"
  and savedJobs_toast [simp]: "savedJobs (toast v t d st) = savedJobs st"
  and wfc_jobs_toast [simp]: "wfc_jobs (toast v t d st) = wfc_jobs st"
  and error_toast [simp]: "error (toast v t d st) = error st"
  and isLoading_toast [simp]: "isLoading (toast v t d st) = isLoading st"
  by (simp_all add: toast_def)

lemma jobs_updateSavedJobs [simp]: "jobs (updateSavedJobs st) = jobs st"
  and currentUser_updateSavedJobs [simp]: "currentUser (updateSavedJobs st) = currentUser st"
  and wfc_jobs_updateSavedJobs [simp]: "wfc_jobs (updateSavedJobs st) = wfc_jobs st"
  and toasts_updateSavedJobs [simp]: "toasts (updateSavedJobs st) = toasts st"
  and error_updateSavedJobs [simp]: "error (updateSavedJobs st) = error st"
  and isLoading_updateSavedJobs [simp]: "isLoading (updateSavedJobs st) = isLoading st"
  by (simp_all add: updateSavedJobs_def split: option.splits)

lemma savedJobs_updateSavedJobs: "savedJobs (updateSavedJobs st) = savedJobs_spec st"
  by (simp add: updateSavedJobs_def savedJobs_spec_def split: option.splits)

lemma jobs_persistJobs [simp]: "jobs (persistJobs st) = jobs st"
  and currentUser_persistJobs [simp]: "currentUser (persistJobs st) = currentUser st"
  and savedJobs_persistJobs [simp]: "savedJobs (persistJobs st) = savedJobs st"
  and toasts_persistJobs [simp]: "toasts (persistJobs st) = toasts st"
  and error_persistJobs [simp]: "error (persistJobs st) = error st"
  and isLoading_persistJobs [simp]: "isLoading (persistJobs st) = isLoading st"
  by (simp_all add: persistJobs_def)

lemma jobs_afterJobsChange [simp]: "jobs (afterJobsChange st) = jobs st"
  and currentUser_afterJobsChange [simp]: "currentUser (afterJobsChange st) = currentUser st"
  and toasts_afterJobsChange [simp]: "toasts (afterJobsChange st) = toasts st"
  and error_afterJobsChange [simp]: "error (afterJobsChange st) = error st"
  and isLoading_afterJobsChange [simp]: "isLoading (afterJobsChange st) = isLoading st"
  by (simp_all add: afterJobsChange_def)

lemma savedJobs_afterJobsChange: "savedJobs (afterJobsChange st) = savedJobs_spec st"
  by (simp add: afterJobsChange_def savedJobs_updateSavedJobs)

lemma jobs_setCurrentUser [simp]: "jobs (setCurrentUser u st) = jobs st"
  and currentUser_setCurrentUser [simp]: "currentUser (setCurrentUser u st) = u"
  by (simp_all add: setCurrentUser_def)

lemma jobs_toggleJobLike:
  "jobs (snd (toggleJobLike jobId st)) =
     (case currentUser st of None \<Rightarrow> jobs st
      | Some user \<Rightarrow> toggleJobLike_update (usr_id user) jobId (jobs st))"
  by (simp add: toggleJobLike_def split: option.splits)

lemma jobs_loadFallback_NoSnapshot:
  "wfc_jobs st = NoSnapshot \<Longrightarrow>
   loadFallback now st = (True, st\<lparr>jobs := getMockJobs now, wfc_jobs := Snapshot (getMockJobs now)\<rparr>)"
  by (simp add: loadFallback_def Let_def)

lemma wfc_jobs_initialStore [simp]: "wfc_jobs (initialStore user cache) = cache"
  and jobs_initialStore [simp]: "jobs (initialStore user cache) = []"
  and currentUser_initialStore [simp]: "currentUser (initialStore user cache) = user"
  by (simp_all add: initialStore_def afterJobsChange_def persistJobs_def)

lemma jobs_seedStore: "jobs seedStore = getMockJobs fixedClock"
  by (simp add: seedStore_def fetchJobs_def jobs_loadFallback_NoSnapshot)

lemma currentUser_seedStore: "currentUser seedStore = Some userU"
  by (simp add: seedStore_def fetchJobs_def jobs_loadFallback_NoSnapshot)

lemma mockJob_ids [simp]:
  "j_id (mockJob1 now) = ''1''" "j_id (mockJob2 now) = ''2''" "j_id (mockJob3 now) = ''3''"
  "j_id (mockJob4 now) = ''4''" "j_id (mockJob5 now) = ''5''"
  by (simp_all add: mockJob1_def mockJob2_def mockJob3_def mockJob4_def mockJob5_def)

lemma mockJob_social [simp]:
  "j_likedBy (mockJob1 now) = []" "j_likesCount (mockJob1 now) = 0" "j_savedBy (mockJob1 now) = []"
  "j_likedBy (mockJob2 now) = []" "j_likesCount (mockJob2 now) = 0" "j_savedBy (mockJob2 now) = []"
  "j_likedBy (mockJob3 now) = []" "j_likesCount (mockJob3 now) = 0" "j_savedBy (mockJob3 now) = []"
  "j_likedBy (mockJob4 now) = []" "j_likesCount (mockJob4 now) = 0" "j_savedBy (mockJob4 now) = []"
  "j_likedBy (mockJob5 now) = []" "j_likesCount (mockJob5 now) = 0" "j_savedBy (mockJob5 now) = []"
  by (simp_all add: mockJob1_def mockJob2_def mockJob3_def mockJob4_def mockJob5_def)

section \<open>The invariant under \<open>toggleJobLike\<close>\<close>

lemma count_list_filter_neq:
  "count_list (filter (\<lambda>i. i \<noteq> u) xs) v = (if v = u then 0 else count_list xs v)"
  by (induction xs) auto

lemma length_filter_neq:
  "int (length (filter (\<lambda>i. i \<noteq> u) xs)) = int (length xs) - int (count_list xs u)"
  by (induction xs) auto

lemma count_list_member_once:
  "u \<in> set xs \<Longrightarrow> count_list xs u \<le> 1 \<Longrightarrow> count_list xs u = 1"
  using count_list_0_iff [of xs u] by linarith

lemma distinct_count_list_le_1: "distinct xs \<Longrightarrow> count_list xs v \<le> 1"
  by (induction xs) (auto simp: count_list_0_iff)

lemma unlike_keeps_count:
  assumes "u \<in> set xs" and "count_list xs u \<le> 1"
  shows "max 0 (int (length xs) - 1) = int (length (filter (\<lambda>i. i \<noteq> u) xs))"
proof -
  from assms have "count_list xs u = 1" by (rule count_list_member_once)
  moreover from assms(1) have "0 < length xs" by (cases xs) auto
  ultimately show ?thesis by (simp add: length_filter_neq)
qed

lemma liked_job_step:
  assumes "job' =
     (if j_id job = jobId
      then if u \<in> set (j_likedBy job)
           then job\<lparr>j_likedBy := filter (\<lambda>i. i \<noteq> u) (j_likedBy job),
                    j_likesCount := max 0 (j_likesCount job - 1)\<rparr>
           else job\<lparr>j_likedBy := j_likedBy job @ [u], j_likesCount := j_likesCount job + 1\<rparr>
      else job)"
  shows "j_id job' = j_id job \<and>
        j_savedBy job' = j_savedBy job \<and>
        (\<forall>v. count_list (j_likedBy job) v \<le> 1 \<longrightarrow> count_list (j_likedBy job') v \<le> 1) \<and>
        (distinct (j_likedBy job) \<longrightarrow> distinct (j_likedBy job')) \<and>
        (j_likesCount job = int (length (j_likedBy job)) \<and>
         (jobId = j_id job \<longrightarrow> count_list (j_likedBy job) u \<le> 1) \<longrightarrow>
         j_likesCount job' = int (length (j_likedBy job')))"
proof (cases "j_id job = jobId")
  case False
  with assms show ?thesis by auto
next
  case id: True
  show ?thesis
  proof (cases "u \<in> set (j_likedBy job)")
    case True
    have "max 0 (int (length (j_likedBy job)) - 1) =
        int (length (filter (\<lambda>i. i \<noteq> u) (j_likedBy job)))"
      if "count_list (j_likedBy job) u \<le> 1"
      using True that by (rule unlike_keeps_count)
    with assms id True show ?thesis by (auto simp: count_list_filter_neq)
  next
    case False
    with assms id show ?thesis by (auto simp: count_list_0_iff)
  qed
qed

lemma toggleJobLike_update_step:
  "list_all2
     (\<lambda>job job'.
        j_id job' = j_id job \<and>
        j_savedBy job' = j_savedBy job \<and>
        (\<forall>v. count_list (j_likedBy job) v \<le> 1 \<longrightarrow> count_list (j_likedBy job') v \<le> 1) \<and>
        (distinct (j_likedBy job) \<longrightarrow> distinct (j_likedBy job')) \<and>
        (j_likesCount job = int (length (j_likedBy job)) \<and>
         (jobId = j_id job \<longrightarrow> count_list (j_likedBy job) u \<le> 1) \<longrightarrow>
         j_likesCount job' = int (length (j_likedBy job'))))
     js (toggleJobLike_update u jobId js)"
  unfolding toggleJobLike_update_def list_all2_map2 list_all2_same Let_def
  by (intro ballI liked_job_step refl)

lemma likeCalls_step:
  "list_all2
     (\<lambda>job job'.
        j_id job' = j_id job \<and>
        j_savedBy job' = j_savedBy job \<and>
        (\<forall>v. count_list (j_likedBy job) v \<le> 1 \<longrightarrow> count_list (j_likedBy job') v \<le> 1) \<and>
        (distinct (j_likedBy job) \<longrightarrow> distinct (j_likedBy job')) \<and>
        (j_likesCount job = int (length (j_likedBy job)) \<and>
         (\<forall>(user, jobId) \<in> set calls.
            jobId = j_id job \<longrightarrow> count_list (j_likedBy job) (usr_id user) \<le> 1) \<longrightarrow>
         j_likesCount job' = int (length (j_likedBy job'))))
     (jobs st) (jobs (likeCalls calls st))"
proof (induction calls arbitrary: st)
  case Nil
  show ?case by (simp add: list_all2_same)
next
  case (Cons c calls)
  obtain user jobId where c: "c = (user, jobId)" by (cases c)
  let ?st1 = "snd (toggleJobLike jobId (setCurrentUser (Some user) st))"
  have js1: "jobs ?st1 = toggleJobLike_update (usr_id user) jobId (jobs st)"
    by (simp add: jobs_toggleJobLike)
  note one = toggleJobLike_update_step [of jobId "usr_id user" "jobs st", folded js1]
  note rest = Cons.IH [of ?st1]
  have "list_all2
     (\<lambda>job job'.
        j_id job' = j_id job \<and>
        j_savedBy job' = j_savedBy job \<and>
        (\<forall>v. count_list (j_likedBy job) v \<le> 1 \<longrightarrow> count_list (j_likedBy job') v \<le> 1) \<and>
        (distinct (j_likedBy job) \<longrightarrow> distinct (j_likedBy job')) \<and>
        (j_likesCount job = int (length (j_likedBy job)) \<and>
         (\<forall>(user, jobId) \<in> set (c # calls).
            jobId = j_id job \<longrightarrow> count_list (j_likedBy job) (usr_id user) \<le> 1) \<longrightarrow>
         j_likesCount job' = int (length (j_likedBy job'))))
     (jobs st) (jobs (likeCalls calls ?st1))"
    using one rest
  proof (rule list_all2_trans [rotated])
    fix a b c' :: JobType
    assume ab: "j_id b = j_id a \<and>
        j_savedBy b = j_savedBy a \<and>
        (\<forall>v. count_list (j_likedBy a) v \<le> 1 \<longrightarrow> count_list (j_likedBy b) v \<le> 1) \<and>
        (distinct (j_likedBy a) \<longrightarrow> distinct (j_likedBy b)) \<and>
        (j_likesCount a = int (length (j_likedBy a)) \<and>
         (jobId = j_id a \<longrightarrow> count_list (j_likedBy a) (usr_id user) \<le> 1) \<longrightarrow>
         j_likesCount b = int (length (j_likedBy b)))"
    and bc: "j_id c' = j_id b \<and>
        j_savedBy c' = j_savedBy b \<and>
        (\<forall>v. count_list (j_likedBy b) v \<le> 1 \<longrightarrow> count_list (j_likedBy c') v \<le> 1) \<and>
        (distinct (j_likedBy b) \<longrightarrow> distinct (j_likedBy c')) \<and>
        (j_likesCount b = int (length (j_likedBy b)) \<and>
         (\<forall>(user, jobId) \<in> set calls.
            jobId = j_id b \<longrightarrow> count_list (j_likedBy b) (usr_id user) \<le> 1) \<longrightarrow>
         j_likesCount c' = int (length (j_likedBy c')))"
    have count: "j_likesCount c' = int (length (j_likedBy c'))"
      if len: "j_likesCount a = int (length (j_likedBy a))"
        and once: "\<forall>(user, jobId) \<in> set (c # calls).
            jobId = j_id a \<longrightarrow> count_list (j_likedBy a) (usr_id user) \<le> 1"
    proof -
      from once c have "jobId = j_id a \<longrightarrow> count_list (j_likedBy a) (usr_id user) \<le> 1"
        by simp
      with ab len have b: "j_likesCount b = int (length (j_likedBy b))" by blast
      have "\<forall>(user, jobId) \<in> set calls.
            jobId = j_id b \<longrightarrow> count_list (j_likedBy b) (usr_id user) \<le> 1"
        using once ab by auto
      with bc b show ?thesis by blast
    qed
    show "j_id c' = j_id a \<and>
        j_savedBy c' = j_savedBy a \<and>
        (\<forall>v. count_list (j_likedBy a) v \<le> 1 \<longrightarrow> count_list (j_likedBy c') v \<le> 1) \<and>
        (distinct (j_likedBy a) \<longrightarrow> distinct (j_likedBy c')) \<and>
        (j_likesCount a = int (length (j_likedBy a)) \<and>
         (\<forall>(user, jobId) \<in> set (c # calls).
            jobId = j_id a \<longrightarrow> count_list (j_likedBy a) (usr_id user) \<le> 1) \<longrightarrow>
         j_likesCount c' = int (length (j_likedBy c')))"
      using ab bc count by auto
  qed
  then show ?case by (simp add: c)
qed

text \<open>
  Claim C1 (amended). Take any sequence of \<open>toggleJobLike\<close> calls by authenticated users
  and any number \<open>n\<close> of its calls. The jobs keep their number, order and ids, and job
  by job:
  \<^item> \<open>savedBy\<close> is not changed;
  \<^item> if \<open>likedBy\<close> held each user id at most once before the calls, it does after them;
  \<^item> if \<open>likesCount\<close> was the length of \<open>likedBy\<close> before the calls, and the id of no
    user who toggles this job occurred twice in its \<open>likedBy\<close>, then \<open>likesCount\<close> is the
    length of \<open>likedBy\<close> after them;
  \<^item> so a job that satisfied the invariant of the data model satisfies it after them.
\<close>

theorem toggleJobLike_preserves_invariant:
  "list_all2
     (\<lambda>job job'.
        j_id job' = j_id job \<and>
        j_savedBy job' = j_savedBy job \<and>
        (distinct (j_likedBy job) \<longrightarrow> distinct (j_likedBy job')) \<and>
        (j_likesCount job = int (length (j_likedBy job)) \<and>
         (\<forall>(user, jobId) \<in> set (take n calls).
            jobId = j_id job \<longrightarrow> count_list (j_likedBy job) (usr_id user) \<le> 1) \<longrightarrow>
         j_likesCount job' = int (length (j_likedBy job'))) \<and>
        (job_inv job \<longrightarrow> job_inv job'))
     (jobs st) (jobs (likeCalls (take n calls) st))"
proof (rule list_all2_mono [OF likeCalls_step [of "take n calls" st]])
  fix job job' :: JobType
  assume step: "j_id job' = j_id job \<and>
        j_savedBy job' = j_savedBy job \<and>
        (\<forall>v. count_list (j_likedBy job) v \<le> 1 \<longrightarrow> count_list (j_likedBy job') v \<le> 1) \<and>
        (distinct (j_likedBy job) \<longrightarrow> distinct (j_likedBy job')) \<and>
        (j_likesCount job = int (length (j_likedBy job)) \<and>
         (\<forall>(user, jobId) \<in> set (take n calls).
            jobId = j_id job \<longrightarrow> count_list (j_likedBy job) (usr_id user) \<le> 1) \<longrightarrow>
         j_likesCount job' = int (length (j_likedBy job')))"
  have "job_inv job'" if inv: "job_inv job"
  proof -
    from inv have d: "distinct (j_likedBy job)" by (simp add: job_inv_def)
    then have "\<forall>v. count_list (j_likedBy job) v \<le> 1"
      by (blast intro: distinct_count_list_le_1)
    with step inv show ?thesis by (auto simp: job_inv_def)
  qed
  with step show "j_id job' = j_id job \<and>
        j_savedBy job' = j_savedBy job \<and>
        (distinct (j_likedBy job) \<longrightarrow> distinct (j_likedBy job')) \<and>
        (j_likesCount job = int (length (j_likedBy job)) \<and>
         (\<forall>(user, jobId) \<in> set (take n calls).
            jobId = j_id job \<longrightarrow> count_list (j_likedBy job) (usr_id user) \<le> 1) \<longrightarrow>
         j_likesCount job' = int (length (j_likedBy job'))) \<and>
        (job_inv job \<longrightarrow> job_inv job')"
    by blast
qed

lemma jobs_dupStore:
  "jobs dupStore = [formatJob dupApiJob]"
  by (simp add: dupStore_def fetchJobs_def)

lemma currentUser_dupStore: "currentUser dupStore = Some userU"
  by (simp add: dupStore_def fetchJobs_def)

lemma formatJob_dupApiJob [simp]:
  "j_id (formatJob dupApiJob) = ''7''"
  "j_likedBy (formatJob dupApiJob) = [''U'', ''U'', ''V'']"
  "j_likesCount (formatJob dupApiJob) = 3"
  "j_savedBy (formatJob dupApiJob) = [''V'', ''V'']"
  by (simp_all add: formatJob_def dupApiJob_def)

text \<open>
  Without the condition on the ids the counter drifts, and uniqueness is no fact of every
  store: the remote API names \<open>U\<close> twice among the likers of job \<open>7\<close>, \<open>fetchJobs\<close> sets
  \<open>likedBy = ['U', 'U', 'V']\<close> and \<open>likesCount = 3\<close>, and one toggle by \<open>U\<close> leaves
  \<open>likedBy = ['V']\<close> with \<open>likesCount = 2\<close>.
\<close>

theorem toggleJobLike_preserves_invariant_counterexample:
  "map j_likedBy (jobs dupStore) = [[''U'', ''U'', ''V'']] \<and>
   map j_likesCount (jobs dupStore) = [3] \<and>
   map j_savedBy (jobs dupStore) = [[''V'', ''V'']] \<and>
   map j_likedBy (jobs (likeCalls [(userU, ''7'')] dupStore)) = [[''V'']] \<and>
   map j_likesCount (jobs (likeCalls [(userU, ''7'')] dupStore)) = [2]"
  by (simp add: jobs_dupStore jobs_toggleJobLike toggleJobLike_update_def userU_def)

text \<open>
  On the seed store the invariant holds before and after three calls; on the store with
  the doubled liker a toggle by \<open>V\<close>, whose id occurs once, keeps the counter right.
\<close>

theorem toggleJobLike_preserves_invariant_witness:
  "list_all job_inv (jobs seedStore) \<and>
   list_all job_inv
     (jobs (likeCalls (take 3 [(userU, ''2''), (userV, ''2''), (userU, ''2''), (userV, ''1'')])
        seedStore)) \<and>
   map j_likedBy
     (jobs (likeCalls (take 3 [(userU, ''2''), (userV, ''2''), (userU, ''2''), (userV, ''1'')])
        seedStore)) = [[], [''V''], [], [], []] \<and>
   map j_likesCount
     (jobs (likeCalls (take 3 [(userU, ''2''), (userV, ''2''), (userU, ''2''), (userV, ''1'')])
        seedStore)) = [0, 1, 0, 0, 0] \<and>
   count_list [''U'', ''U'', ''V''] (usr_id userV) = 1 \<and>
   map j_likedBy (jobs (likeCalls (take 1 [(userV, ''7'')]) dupStore)) = [[''U'', ''U'']] \<and>
   map j_likesCount (jobs (likeCalls (take 1 [(userV, ''7'')]) dupStore)) = [2]"
  using toggleJobLike_preserves_invariant
      [of 3 "[(userU, ''2''), (userV, ''2''), (userU, ''2''), (userV, ''1'')]" seedStore]
    toggleJobLike_preserves_invariant [of 1 "[(userV, ''7'')]" dupStore]
  by (simp add: list_all_iff jobs_seedStore getMockJobs_def job_inv_def jobs_dupStore
      jobs_toggleJobLike toggleJobLike_update_def userU_def userV_def)

section \<open>Toggling a like twice\<close>

lemma getJob_find: "getJob st jobId = find (\<lambda>job. j_id job = jobId) (jobs st)"
  by (simp add: getJob_def)




lemma jobs_updateJob:
  "jobs (snd (updateJob jobId updates st)) = updateJob_update jobId updates (jobs st)"
  by (simp add: updateJob_def)

lemma currentUser_toggleJobLike [simp]: "currentUser (snd (toggleJobLike jobId st)) = currentUser st"
  by (simp add: toggleJobLike_def split: option.splits)


lemma getJob_seed2: "getJob seedStore ''2'' = Some (mockJob2 fixedClock)"
  by (simp add: getJob_find jobs_seedStore getMockJobs_def)


lemma currentUser_likedStore: "currentUser likedStore = Some userU"
  by (simp add: likedStore_def)






section \<open>Loading the seed dataset\<close>

lemma length_getMockJobs: "length (getMockJobs now) = 5"
  by (simp add: getMockJobs_def)

lemma fetchJobs_fallback:
  assumes "response = FetchRejected \<or> response = ResponseNotOk"
  shows "fetchJobs now response st =
     (let (changed, st2) = loadFallback now (st\<lparr>isLoading := True\<rparr>);
          st3 = st2\<lparr>isLoading := False\<rparr>
      in if changed then afterJobsChange st3 else st3)"
  using assms by (auto simp: fetchJobs_def Let_def)

text \<open>
  Claim C3. When the remote fetch fails (the request rejects or the response is not
  \<open>ok\<close>) and local storage holds no snapshot, the job list \<open>fetchJobs\<close> leaves is the
  seed dataset of \<open>getMockJobs\<close>, five jobs with the ids 1 to 5; the \<open>catch\<close> block
  itself has written that dataset to local storage, where it still is once the effects
  have run; no error is recorded and loading has ended.
\<close>

theorem fetchJobs_seed_fallback:
  assumes "response = FetchRejected \<or> response = ResponseNotOk"
    and "wfc_jobs st = NoSnapshot"
  shows
    "jobs (fetchJobs now response st) = getMockJobs now \<and>
     length (getMockJobs now) = 5 \<and>
     map j_id (getMockJobs now) = [''1'', ''2'', ''3'', ''4'', ''5''] \<and>
     wfc_jobs (snd (loadFallback now (st\<lparr>isLoading := True\<rparr>))) = Snapshot (getMockJobs now) \<and>
     wfc_jobs (fetchJobs now response st) = Snapshot (getMockJobs now) \<and>
     error (fetchJobs now response st) = error st \<and>
     isLoading (fetchJobs now response st) = False"
proof -
  have fb: "loadFallback now (st\<lparr>isLoading := True\<rparr>) =
      (True, st\<lparr>isLoading := True, jobs := getMockJobs now,
                wfc_jobs := Snapshot (getMockJobs now)\<rparr>)"
    using assms(2) by (simp add: jobs_loadFallback_NoSnapshot)
  have res: "fetchJobs now response st =
      afterJobsChange (st\<lparr>jobs := getMockJobs now,
                wfc_jobs := Snapshot (getMockJobs now), isLoading := False\<rparr>)"
    by (simp add: fetchJobs_fallback [OF assms(1)] fb)
  have ids: "map j_id (getMockJobs now) = [''1'', ''2'', ''3'', ''4'', ''5'']"
    by (simp add: getMockJobs_def)
  have cache: "wfc_jobs (fetchJobs now response st) = Snapshot (getMockJobs now)"
    by (simp add: res afterJobsChange_def persistJobs_def)
  show ?thesis using fb res ids cache by (simp add: length_getMockJobs)
qed

theorem fetchJobs_seed_fallback_witness:
  "(ResponseNotOk = FetchRejected \<or> ResponseNotOk = ResponseNotOk) \<and>
   wfc_jobs (initialStore None NoSnapshot) = NoSnapshot \<and>
   jobs (fetchJobs fixedClock ResponseNotOk (initialStore None NoSnapshot)) =
     getMockJobs fixedClock \<and>
   wfc_jobs (fetchJobs fixedClock ResponseNotOk (initialStore None NoSnapshot)) =
     Snapshot (getMockJobs fixedClock) \<and>
   map j_status (getMockJobs fixedClock) =
     [StatusOpen, StatusOpen, StatusInProgress, StatusOpen, StatusCompleted] \<and>
   map (\<lambda>job. length (j_comments job)) (getMockJobs fixedClock) = [1, 0, 0, 0, 0]"
  using fetchJobs_seed_fallback [of ResponseNotOk "initialStore None NoSnapshot" fixedClock]
  by (simp add: getMockJobs_def mockJob1_def mockJob2_def mockJob3_def mockJob4_def mockJob5_def)

section \<open>Comments and replies\<close>






section \<open>Deleting, updating, and toggling without a user\<close>

lemma jobs_deleteJob: "jobs (snd (deleteJob jobId st)) = deleteJob_update jobId (jobs st)"
  by (simp add: deleteJob_def)

lemma jobs_toggleSaveJob:
  "jobs (snd (toggleSaveJob jobId st)) =
     (case currentUser st of None \<Rightarrow> jobs st
      | Some user \<Rightarrow> toggleSaveJob_update (usr_id user) jobId (jobs st))"
  by (simp add: toggleSaveJob_def split: option.splits)

lemma find_filter_neq: "find (\<lambda>job. j_id job = jobId) (filter (\<lambda>job. j_id job \<noteq> jobId) js) = None"
  by (induction js) simp_all

text \<open>
  Claim C5. For every job id, \<open>getJob\<close> after \<open>deleteJob\<close> of that id finds no job.
  \<open>getJob\<close> is a function of the store that returns the job it finds and nothing
  else: it has no store to return, as the source function calls no state setter.
\<close>

theorem deleteJob_then_getJob:
  "getJob (snd (deleteJob jobId st)) jobId = None"
  by (simp add: getJob_find jobs_deleteJob deleteJob_update_def find_filter_neq)

theorem deleteJob_then_getJob_witness:
  "getJob seedStore ''2'' = Some (mockJob2 fixedClock) \<and>
   getJob (snd (deleteJob ''2'' seedStore)) ''2'' = None \<and>
   map j_id (jobs (snd (deleteJob ''2'' seedStore))) = [''1'', ''3'', ''4'', ''5'']"
  using deleteJob_then_getJob [of "''2''" seedStore]
  by (simp add: getJob_seed2 jobs_deleteJob deleteJob_update_def jobs_seedStore getMockJobs_def)

text \<open>
  Claim C7. Without an acting user, \<open>toggleJobLike\<close> and \<open>toggleSaveJob\<close> resolve
  (nothing is thrown to the caller) and change the store in one way only: a notification
  of the destructive variant, titled Error, is appended. The job list is the same.
\<close>

theorem toggles_need_user:
  assumes "currentUser st = None"
  shows
    "toggleJobLike jobId st =
       (Resolved,
        st\<lparr>toasts := toasts st @
             [\<lparr>t_variant = VariantDestructive, t_title = ''Error'',
               t_description = ''Debes iniciar sesi'' @ [CHR 0xF3] @ ''n para dar like''\<rparr>]\<rparr>) \<and>
     toggleSaveJob jobId st =
       (Resolved,
        st\<lparr>toasts := toasts st @
             [\<lparr>t_variant = VariantDestructive, t_title = ''Error'',
               t_description =
                 ''Debes iniciar sesi'' @ [CHR 0xF3] @ ''n para guardar propuestas''\<rparr>]\<rparr>) \<and>
     jobs (snd (toggleJobLike jobId st)) = jobs st \<and>
     jobs (snd (toggleSaveJob jobId st)) = jobs st"
  using assms by (simp add: toggleJobLike_def toggleSaveJob_def toast_def)

theorem toggles_need_user_witness:
  "currentUser (setCurrentUser None seedStore) = None \<and>
   fst (toggleJobLike ''2'' (setCurrentUser None seedStore)) = Resolved \<and>
   fst (toggleSaveJob ''2'' (setCurrentUser None seedStore)) = Resolved \<and>
   jobs (snd (toggleJobLike ''2'' (setCurrentUser None seedStore))) = jobs seedStore \<and>
   jobs (snd (toggleSaveJob ''2'' (setCurrentUser None seedStore))) = jobs seedStore \<and>
   map t_variant (toasts (snd (toggleJobLike ''2'' (setCurrentUser None seedStore)))) =
     map t_variant (toasts seedStore) @ [VariantDestructive]"
  using toggles_need_user [of "setCurrentUser None seedStore" "''2''"]
  by (simp add: setCurrentUser_def)

text \<open>
  Claim C8. \<open>updateJob\<close> with the update \<open>{status: 'completed'}\<close> sets the status of
  every job with the given id to completed and changes no other field of it and no
  other job.
\<close>

theorem updateJob_status_only:
  "jobs (snd (updateJob jobId (noUpdates\<lparr>u_status := Some StatusCompleted\<rparr>) st)) =
     map (\<lambda>job. if j_id job = jobId then job\<lparr>j_status := StatusCompleted\<rparr> else job) (jobs st)"
  by (simp add: jobs_updateJob updateJob_update_def applyUpdates_def noUpdates_def)

theorem updateJob_status_only_witness:
  "jobs (snd (updateJob ''2'' (noUpdates\<lparr>u_status := Some StatusCompleted\<rparr>) seedStore)) =
     [mockJob1 fixedClock, (mockJob2 fixedClock)\<lparr>j_status := StatusCompleted\<rparr>,
      mockJob3 fixedClock, mockJob4 fixedClock, mockJob5 fixedClock]"
  using updateJob_status_only [of "''2''" seedStore]
  by (simp add: jobs_seedStore getMockJobs_def)

section \<open>Frames of the mutations\<close>

lemma map_if_absent:
  assumes "jobId \<notin> j_id ` set js"
  shows "map (\<lambda>job. if j_id job = jobId then f job else job) js = js"
  using assms by (induction js) auto

lemma filter_neq_id_absent:
  assumes "jobId \<notin> j_id ` set js"
  shows "filter (\<lambda>job. j_id job \<noteq> jobId) js = js"
  using assms by (induction js) auto

lemma map_comments_absent:
  assumes "commentId \<notin> c_id ` set cs"
  shows "map (\<lambda>comment. if c_id comment = commentId then f comment else comment) cs = cs"
  using assms by (induction cs) auto

lemma addReply_absent_comment:
  assumes "\<forall>job \<in> set js. j_id job = jobId \<longrightarrow> commentId \<notin> c_id ` set (j_comments job)"
  shows "addReplyToComment_update jobId commentId reply js = js"
  using assms
  by (induction js) (auto simp: addReplyToComment_update_def map_comments_absent)

lemma jobs_addCommentToJob_any:
  "jobs (snd (addCommentToJob now jobId content user st)) =
     (case user of None \<Rightarrow> jobs st
      | Some u \<Rightarrow> addCommentToJob_update jobId (newComment now content u) (jobs st))"
  by (simp add: addCommentToJob_def split: option.splits)

lemma jobs_addReplyToComment_any:
  "jobs (snd (addReplyToComment now jobId commentId content user st)) =
     (case user of None \<Rightarrow> jobs st
      | Some u \<Rightarrow> addReplyToComment_update jobId commentId (newReply now content u) (jobs st))"
  by (simp add: addReplyToComment_def split: option.splits)

text \<open>
  Claim C9. For a job id that no job of the store has, \<open>updateJob\<close>, \<open>deleteJob\<close>,
  \<open>addCommentToJob\<close>, \<open>addReplyToComment\<close>, \<open>toggleJobLike\<close> and \<open>toggleSaveJob\<close>
  (with or without an acting user) leave the job list as it was; so does
  \<open>addReplyToComment\<close> for a comment id that no job with the given id has among its
  comments.
\<close>

theorem absent_id_leaves_jobs:
  shows
    "(jobId \<notin> j_id ` set (jobs st) \<longrightarrow>
        jobs (snd (updateJob jobId updates st)) = jobs st \<and>
        jobs (snd (deleteJob jobId st)) = jobs st \<and>
        jobs (snd (addCommentToJob now jobId content user st)) = jobs st \<and>
        jobs (snd (addReplyToComment now jobId commentId content user st)) = jobs st \<and>
        jobs (snd (toggleJobLike jobId st)) = jobs st \<and>
        jobs (snd (toggleSaveJob jobId st)) = jobs st) \<and>
     ((\<forall>job \<in> set (jobs st).
          j_id job = jobId \<longrightarrow> commentId \<notin> c_id ` set (j_comments job)) \<longrightarrow>
        jobs (snd (addReplyToComment now jobId commentId content user st)) = jobs st)"
proof (intro conjI impI)
  assume a: "jobId \<notin> j_id ` set (jobs st)"
  show "jobs (snd (updateJob jobId updates st)) = jobs st"
    using a by (simp add: jobs_updateJob updateJob_update_def map_if_absent)
  show "jobs (snd (deleteJob jobId st)) = jobs st"
    using a by (simp add: jobs_deleteJob deleteJob_update_def filter_neq_id_absent)
  show "jobs (snd (addCommentToJob now jobId content user st)) = jobs st"
    using a by (simp add: jobs_addCommentToJob_any addCommentToJob_update_def map_if_absent
        split: option.splits)
  show "jobs (snd (addReplyToComment now jobId commentId content user st)) = jobs st"
    using a by (simp add: jobs_addReplyToComment_any addReplyToComment_update_def map_if_absent
        split: option.splits)
  show "jobs (snd (toggleJobLike jobId st)) = jobs st"
    using a by (simp add: jobs_toggleJobLike toggleJobLike_update_def map_if_absent
        split: option.splits)
  show "jobs (snd (toggleSaveJob jobId st)) = jobs st"
    using a by (simp add: jobs_toggleSaveJob toggleSaveJob_update_def map_if_absent
        split: option.splits)
next
  assume "\<forall>job \<in> set (jobs st). j_id job = jobId \<longrightarrow> commentId \<notin> c_id ` set (j_comments job)"
  then show "jobs (snd (addReplyToComment now jobId commentId content user st)) = jobs st"
    by (simp add: jobs_addReplyToComment_any addReply_absent_comment split: option.splits)
qed

theorem absent_id_leaves_jobs_witness:
  "''9'' \<notin> set (map j_id (jobs seedStore)) \<and>
   jobs (snd (updateJob ''9'' (noUpdates\<lparr>u_title := Some ''x''\<rparr>) seedStore)) = jobs seedStore \<and>
   jobs (snd (deleteJob ''9'' seedStore)) = jobs seedStore \<and>
   jobs (snd (addCommentToJob fixedClock ''9'' ''Hola'' (Some userU) seedStore)) = jobs seedStore \<and>
   jobs (snd (addReplyToComment fixedClock ''9'' ''c1'' ''Hola'' (Some userU) seedStore)) =
     jobs seedStore \<and>
   jobs (snd (toggleJobLike ''9'' seedStore)) = jobs seedStore \<and>
   jobs (snd (toggleSaveJob ''9'' seedStore)) = jobs seedStore \<and>
   ''c7'' \<notin> set (map c_id (j_comments (mockJob1 fixedClock))) \<and>
   jobs (snd (addReplyToComment fixedClock ''1'' ''c7'' ''Hola'' (Some userU) seedStore)) =
     jobs seedStore"
  using absent_id_leaves_jobs [where st = seedStore and jobId = "''9''" and now = fixedClock
      and updates = "noUpdates\<lparr>u_title := Some ''x''\<rparr>" and content = "''Hola''"
      and user = "Some userU" and commentId = "''c1''"]
    absent_id_leaves_jobs [where st = seedStore and jobId = "''1''" and now = fixedClock
      and content = "''Hola''" and user = "Some userU" and commentId = "''c7''"]
  by (simp add: jobs_seedStore getMockJobs_def mockJob1_def)

text \<open>
  Claim C10. With an acting user, \<open>toggleJobLike\<close> keeps the number and order of the
  jobs, leaves every job with another id as it was, and changes at most \<open>likedBy\<close> and
  \<open>likesCount\<close> of a job with the given id (putting the two old values back gives the
  old job); \<open>toggleSaveJob\<close> does the same with \<open>savedBy\<close> alone.
\<close>

theorem like_and_save_independent:
  assumes "currentUser st = Some user"
  shows
    "list_all2
       (\<lambda>job job'.
          (if j_id job = jobId
           then job'\<lparr>j_likedBy := j_likedBy job, j_likesCount := j_likesCount job\<rparr>
           else job') = job)
       (jobs st) (jobs (snd (toggleJobLike jobId st))) \<and>
     list_all2
       (\<lambda>job job'. (if j_id job = jobId then job'\<lparr>j_savedBy := j_savedBy job\<rparr> else job') = job)
       (jobs st) (jobs (snd (toggleSaveJob jobId st)))"
  using assms
  by (simp add: jobs_toggleJobLike jobs_toggleSaveJob toggleJobLike_update_def
      toggleSaveJob_update_def list_all2_map2 list_all2_same Let_def)

lemma currentUser_toggleSaveJob [simp]: "currentUser (snd (toggleSaveJob jobId st)) = currentUser st"
  by (simp add: toggleSaveJob_def split: option.splits)

theorem like_and_save_independent_witness:
  "currentUser likedStore = Some userU \<and>
   map j_likedBy (jobs likedStore) = [[], [''U'', ''V''], [], [], []] \<and>
   map j_likedBy (jobs (snd (toggleJobLike ''2'' likedStore))) = [[], [''V''], [], [], []] \<and>
   map j_likesCount (jobs (snd (toggleJobLike ''2'' likedStore))) = [0, 1, 0, 0, 0] \<and>
   map j_savedBy (jobs (snd (toggleJobLike ''2'' likedStore))) = map j_savedBy (jobs likedStore) \<and>
   map j_comments (jobs (snd (toggleJobLike ''2'' likedStore))) = map j_comments (jobs likedStore) \<and>
   map j_savedBy (jobs (snd (toggleSaveJob ''2'' likedStore))) = [[], [''U''], [], [], []] \<and>
   map j_likedBy (jobs (snd (toggleSaveJob ''2'' likedStore))) = map j_likedBy (jobs likedStore) \<and>
   map j_likesCount (jobs (snd (toggleSaveJob ''2'' likedStore))) =
     map j_likesCount (jobs likedStore) \<and>
   list_all2
     (\<lambda>job job'.
        (if j_id job = ''2''
         then job'\<lparr>j_likedBy := j_likedBy job, j_likesCount := j_likesCount job\<rparr>
         else job') = job)
     (jobs likedStore) (jobs (snd (toggleJobLike ''2'' likedStore))) \<and>
   list_all2
     (\<lambda>job job'. (if j_id job = ''2'' then job'\<lparr>j_savedBy := j_savedBy job\<rparr> else job') = job)
     (jobs likedStore) (jobs (snd (toggleSaveJob ''2'' likedStore)))"
proof -
  have js: "jobs likedStore =
      [mockJob1 fixedClock,
       (mockJob2 fixedClock)\<lparr>j_likedBy := [''U'', ''V''], j_likesCount := 2\<rparr>,
       mockJob3 fixedClock, mockJob4 fixedClock, mockJob5 fixedClock]"
    by (simp add: likedStore_def jobs_toggleJobLike toggleJobLike_update_def
        jobs_seedStore getMockJobs_def userU_def userV_def)
  show ?thesis
    using like_and_save_independent [of likedStore userU "''2''"]
    by (simp add: currentUser_likedStore js jobs_toggleJobLike jobs_toggleSaveJob
        toggleJobLike_update_def toggleSaveJob_update_def userU_def)
qed

section \<open>The Saved Jobs view\<close>

lemma savedJobs_spec_cong:
  "jobs a = jobs b \<Longrightarrow> currentUser a = currentUser b \<Longrightarrow> savedJobs_spec a = savedJobs_spec b"
  by (simp add: savedJobs_spec_def split: option.splits)

lemma savedJobs_spec_simps [simp]:
  "savedJobs_spec (st\<lparr>isLoading := a\<rparr>) = savedJobs_spec st"
  "savedJobs_spec (st\<lparr>error := e\<rparr>) = savedJobs_spec st"
  "savedJobs_spec (st\<lparr>savedJobs := s\<rparr>) = savedJobs_spec st"
  "savedJobs_spec (toast v t d st) = savedJobs_spec st"
  by (simp_all add: savedJobs_spec_def toast_def cong: option.case_cong)

lemma view_afterJobsChange:
  "savedJobs (afterJobsChange st) = savedJobs_spec (afterJobsChange st)"
  by (simp add: savedJobs_afterJobsChange savedJobs_spec_cong [of "afterJobsChange st" st])

lemma view_setCurrentUser:
  "savedJobs (setCurrentUser user st) = savedJobs_spec (setCurrentUser user st)"
  by (simp add: setCurrentUser_def savedJobs_updateSavedJobs
      savedJobs_spec_cong [of "updateSavedJobs (st\<lparr>currentUser := user\<rparr>)" "st\<lparr>currentUser := user\<rparr>"])

lemma view_toggleSaveJob:
  assumes "currentUser st \<noteq> None"
  shows "savedJobs (snd (toggleSaveJob jobId st)) = savedJobs_spec (snd (toggleSaveJob jobId st))"
  using assms by (auto simp: toggleSaveJob_def view_afterJobsChange)

lemma view_fetchJobs:
  assumes "savedJobs st = savedJobs_spec st"
  shows "savedJobs (fetchJobs now response st) = savedJobs_spec (fetchJobs now response st)"
proof -
  have unchanged: "savedJobs (st\<lparr>isLoading := a, error := e\<rparr>) =
      savedJobs_spec (st\<lparr>isLoading := a, error := e\<rparr>)" for a e
    using assms by simp
  have unchanged': "savedJobs (st\<lparr>isLoading := a\<rparr>) = savedJobs_spec (st\<lparr>isLoading := a\<rparr>)" for a
    using assms by simp
  show ?thesis
    using unchanged unchanged'
    by (auto simp: fetchJobs_def loadFallback_def Let_def view_afterJobsChange
        split: RemoteResponse.splits option.splits CacheSlot.splits)
qed

lemma view_dispatch:
  assumes "savedJobs st = savedJobs_spec st"
  shows "savedJobs (dispatch a st) = savedJobs_spec (dispatch a st)"
proof (cases a)
  case (FetchJobs now response)
  then show ?thesis using assms by (simp add: view_fetchJobs)
next
  case (AddJob now newJob)
  then show ?thesis by (simp add: addJob_def Let_def view_afterJobsChange)
next
  case (UpdateJob jobId updates)
  then show ?thesis by (simp add: updateJob_def view_afterJobsChange)
next
  case (DeleteJob jobId)
  then show ?thesis by (simp add: deleteJob_def view_afterJobsChange)
next
  case (AddCommentToJob now jobId content user)
  then show ?thesis using assms
    by (cases user) (simp_all add: addCommentToJob_def view_afterJobsChange)
next
  case (AddReplyToComment now jobId commentId content user)
  then show ?thesis using assms
    by (cases user) (simp_all add: addReplyToComment_def view_afterJobsChange)
next
  case (ToggleJobLike jobId)
  then show ?thesis using assms
    by (cases "currentUser st")
      (simp_all add: toggleJobLike_def view_afterJobsChange)
next
  case (ToggleSaveJob jobId)
  then show ?thesis using assms
    by (cases "currentUser st")
      (simp_all add: toggleSaveJob_def view_afterJobsChange)
next
  case (SetCurrentUser user)
  then show ?thesis by (simp add: view_setCurrentUser)
qed

lemma view_run:
  "savedJobs st = savedJobs_spec st \<Longrightarrow> savedJobs (run acts st) = savedJobs_spec (run acts st)"
  by (induction acts arbitrary: st) (simp_all add: view_dispatch)

lemma view_initialStore:
  "savedJobs (initialStore user cache) = savedJobs_spec (initialStore user cache)"
  by (simp add: initialStore_def view_afterJobsChange)

text \<open>
  Claim C6. In every state the store reaches from its mounting by any sequence of
  operations and changes of the acting user (each taken with the effects it triggers),
  the Saved Jobs view is the list of the jobs whose \<open>savedBy\<close> holds the acting user's
  id, in the order of the job list, and it is the empty list when there is no acting
  user. It is that list after every \<open>toggleSaveJob\<close> by an acting user and after every
  change of the acting user, whatever it was before.
\<close>

theorem savedJobs_is_filtered_view:
  "savedJobs (run acts (initialStore user cache)) =
     savedJobs_spec (run acts (initialStore user cache)) \<and>
   (currentUser (run acts (initialStore user cache)) = None \<longrightarrow>
      savedJobs (run acts (initialStore user cache)) = []) \<and>
   (currentUser st \<noteq> None \<longrightarrow>
      savedJobs (snd (toggleSaveJob jobId st)) = savedJobs_spec (snd (toggleSaveJob jobId st))) \<and>
   savedJobs (setCurrentUser user' st) = savedJobs_spec (setCurrentUser user' st)"
proof -
  have reach: "savedJobs (run acts (initialStore user cache)) =
     savedJobs_spec (run acts (initialStore user cache))"
    by (rule view_run [OF view_initialStore])
  have empty: "currentUser (run acts (initialStore user cache)) = None \<longrightarrow>
      savedJobs (run acts (initialStore user cache)) = []"
    by (simp add: reach savedJobs_spec_def)
  show ?thesis using reach empty by (simp add: view_toggleSaveJob view_setCurrentUser)
qed

lemma seed_saves:
  "jobs (snd (toggleSaveJob ''1'' (snd (toggleSaveJob ''2''
      (snd (toggleSaveJob ''4'' (snd (toggleSaveJob ''2'' seedStore)))))))) =
   [(mockJob1 fixedClock)\<lparr>j_savedBy := [''U'']\<rparr>, (mockJob2 fixedClock)\<lparr>j_savedBy := []\<rparr>,
    mockJob3 fixedClock, (mockJob4 fixedClock)\<lparr>j_savedBy := [''U'']\<rparr>, mockJob5 fixedClock]"
  by (simp add: jobs_toggleSaveJob currentUser_seedStore toggleSaveJob_update_def
      jobs_seedStore getMockJobs_def userU_def)

theorem savedJobs_is_filtered_view_witness:
  "map j_id
     (savedJobs
        (run [FetchJobs fixedClock FetchRejected, ToggleSaveJob ''2'', ToggleSaveJob ''4'',
              ToggleSaveJob ''2'', ToggleSaveJob ''1'']
           (initialStore (Some userU) NoSnapshot))) = [''1'', ''4''] \<and>
   currentUser seedStore = Some userU \<and>
   map j_id (savedJobs (snd (toggleSaveJob ''4'' seedStore))) = [''4''] \<and>
   savedJobs (setCurrentUser None (snd (toggleSaveJob ''4'' seedStore))) = []"
proof -
  let ?acts = "[FetchJobs fixedClock FetchRejected, ToggleSaveJob ''2'', ToggleSaveJob ''4'',
              ToggleSaveJob ''2'', ToggleSaveJob ''1'']"
  have R: "run ?acts (initialStore (Some userU) NoSnapshot) =
     snd (toggleSaveJob ''1'' (snd (toggleSaveJob ''2''
      (snd (toggleSaveJob ''4'' (snd (toggleSaveJob ''2'' seedStore)))))))"
    by (simp add: seedStore_def)
  have four: "jobs (snd (toggleSaveJob ''4'' seedStore)) =
     [mockJob1 fixedClock, mockJob2 fixedClock, mockJob3 fixedClock,
      (mockJob4 fixedClock)\<lparr>j_savedBy := [''U'']\<rparr>, mockJob5 fixedClock]"
    by (simp add: jobs_toggleSaveJob currentUser_seedStore toggleSaveJob_update_def
      jobs_seedStore getMockJobs_def userU_def)
  note inst = savedJobs_is_filtered_view
    [of ?acts "Some userU" NoSnapshot seedStore "''4''" None]
  have 1: "savedJobs (run ?acts (initialStore (Some userU) NoSnapshot)) =
      savedJobs_spec (run ?acts (initialStore (Some userU) NoSnapshot))"
    using inst by blast
  have 2: "savedJobs (snd (toggleSaveJob ''4'' seedStore)) =
      savedJobs_spec (snd (toggleSaveJob ''4'' seedStore))"
    using inst by (simp add: currentUser_seedStore)
  have a: "map j_id (savedJobs (run ?acts (initialStore (Some userU) NoSnapshot))) = [''1'', ''4'']"
    unfolding 1 unfolding R
    by (simp add: savedJobs_spec_def seed_saves currentUser_seedStore userU_def)
  have b: "map j_id (savedJobs (snd (toggleSaveJob ''4'' seedStore))) = [''4'']"
    unfolding 2 by (simp add: savedJobs_spec_def four currentUser_seedStore userU_def)
  have c: "savedJobs (setCurrentUser None (snd (toggleSaveJob ''4'' seedStore))) = []"
    by (simp add: view_setCurrentUser savedJobs_spec_def)
  show ?thesis using a b c by (simp add: currentUser_seedStore)
qed

end
